theory Spec2Isabelle
  imports Complex_Main "HOL-Library.Multiset"
begin

section \<open>Text primitives of the extractor\<close>

text \<open>
  A Python \<open>str\<close> is modelled as a \<open>string\<close> whose characters are the code points
  below 256. The classifications below are Python's \<open>str.isspace\<close> and
  \<open>str.isdigit\<close> restricted to that range.
\<close>

definition newline :: char where
  "newline = CHR 0x0A"

definition is_space :: "char \<Rightarrow> bool" where
  "is_space c =
     (let n = of_char c :: nat
      in (9 \<le> n \<and> n \<le> 13) \<or> (28 \<le> n \<and> n \<le> 32) \<or> n = 133 \<or> n = 160)"

definition is_digit :: "char \<Rightarrow> bool" where
  "is_digit c =
     (let n = of_char c :: nat
      in (48 \<le> n \<and> n \<le> 57) \<or> n = 178 \<or> n = 179 \<or> n = 185)"

text \<open>\<open>s.strip()\<close>: whitespace removed at both ends.\<close>

definition strip :: "string \<Rightarrow> string" where
  "strip s = rev (dropWhile is_space (rev (dropWhile is_space s)))"

text \<open>\<open>s.split('\n')\<close>: never returns the empty list; \<open>''.split('\n') == ['']\<close>.\<close>

fun split_nl :: "string \<Rightarrow> string list" where
  "split_nl [] = [[]]"
| "split_nl (c # cs) =
     (if c = newline then [] # split_nl cs
      else (case split_nl cs of [] \<Rightarrow> [[c]] | l # ls \<Rightarrow> (c # l) # ls))"

text \<open>\<open>sep.join(xs)\<close>.\<close>

fun join :: "string \<Rightarrow> string list \<Rightarrow> string" where
  "join sep [] = []"
| "join sep [x] = x"
| "join sep (x # y # ys) = x @ sep @ join sep (y # ys)"

text \<open>\<open>s.replace(c, '')\<close> for a one-character \<open>c\<close>.\<close>

definition replace_del :: "char \<Rightarrow> string \<Rightarrow> string" where
  "replace_del c s = filter (\<lambda>d. d \<noteq> c) s"

text \<open>\<open>s.isdigit()\<close>: false on the empty string.\<close>

definition isdigit :: "string \<Rightarrow> bool" where
  "isdigit s = (s \<noteq> [] \<and> list_all is_digit s)"

section \<open>The extractor: \<open>parse_forge_output\<close>\<close>

definition header :: string where
  "header = ''tokens,lockup_days,multiplier''"

text \<open>The two tests of the loop body, in the order of the source.\<close>

definition numeric_line :: "string \<Rightarrow> bool" where
  "numeric_line line =
     (CHR '','' \<in> set line \<and> isdigit (replace_del CHR '' '' (replace_del CHR '','' line)))"

definition header_line :: "string \<Rightarrow> bool" where
  "header_line line = (strip line = header)"

text \<open>The \<open>for line in lines\<close> loop, with \<open>csv_lines\<close> as the accumulator.\<close>

fun extract_loop :: "string list \<Rightarrow> string list \<Rightarrow> string list" where
  "extract_loop [] csv_lines = csv_lines"
| "extract_loop (line # rest) csv_lines =
     (if numeric_line line then extract_loop rest (csv_lines @ [strip line])
      else if header_line line then extract_loop rest (csv_lines @ [strip line])
      else extract_loop rest csv_lines)"

definition parse_forge_output :: "string \<Rightarrow> string" where
  "parse_forge_output forge_output_text =
     join [newline] (extract_loop (split_nl (strip forge_output_text)) [])"

section \<open>Data model\<close>

text \<open>
  A row of the table. The three loaded columns are numeric columns as \<open>pd.read_csv\<close>
  builds them: \<open>tokens\<close> may be any number, \<open>lockup_days\<close> and \<open>multiplier\<close> are
  integers. The derived column \<open>multiplier_decimal\<close> is \<open>None\<close> in a row while the
  table does not have that column; once derived it holds the quotient, kept exact.
\<close>

record row =
  tokens :: rat
  lockup_days :: int
  multiplier :: int
  multiplier_decimal :: "rat option"

type_synonym frame = "row list"

definition mk_row :: "rat \<Rightarrow> int \<Rightarrow> int \<Rightarrow> row" where
  "mk_row t l m = \<lparr>tokens = t, lockup_days = l, multiplier = m, multiplier_decimal = None\<rparr>"

datatype error =
    ValueError string
  | FileNotFoundError string
  | KeyError string
  | IndexError
  | UnboundLocalError string
  | OtherError string

section \<open>The loader: \<open>read_multiplier_data\<close>\<close>

text \<open>
  \<open>pd.read_csv\<close> is a parameter: it maps a source (a path, or the text wrapped in
  \<open>io.StringIO\<close>) to a table or to the exception it raises. The loader returns the
  sources it handed to \<open>pd.read_csv\<close> together with its result.
\<close>

datatype source = Path string | Buffer string

text \<open>Python's truth value of an argument that is \<open>None\<close> or a \<open>str\<close>.\<close>

definition truthy :: "string option \<Rightarrow> bool" where
  "truthy a = (case a of None \<Rightarrow> False | Some s \<Rightarrow> s \<noteq> [])"

definition read_multiplier_data ::
  "(source \<Rightarrow> error + frame) \<Rightarrow> string option \<Rightarrow> string option
     \<Rightarrow> source list \<times> (error + frame)" where
  "read_multiplier_data read_csv csv_content csv_file =
     (case (truthy csv_file, csv_file) of
        (True, Some f) \<Rightarrow> ([Path f], read_csv (Path f))
      | _ \<Rightarrow>
        (case (truthy csv_content, csv_content) of
           (True, Some c) \<Rightarrow> ([Buffer c], read_csv (Buffer c))
         | _ \<Rightarrow> ([], Inl (ValueError ''Must provide either csv_content or csv_file''))))"

section \<open>The deriver\<close>

text \<open>\<open>df['multiplier_decimal'] = df['multiplier'] / 10000\<close>, on the rows of a table.\<close>

definition derive :: "frame \<Rightarrow> frame" where
  "derive df = map (\<lambda>r. r\<lparr>multiplier_decimal := Some (of_int (multiplier r) / 10000)\<rparr>) df"

section \<open>Machine numbers of the bonus computation\<close>

subsection \<open>Binary64 floats\<close>

text \<open>
  A finite float is the rational it denotes. \<open>float64 x\<close> is the binary64 number
  nearest to \<open>x\<close>, ties to the even significand: a grid of step \<open>2 ^ (e - 52)\<close> where
  \<open>2 ^ e \<le> |x| < 2 ^ (e + 1)\<close>, and of step \<open>2 ^ - 1074\<close> below \<open>2 ^ - 1022\<close>.
  Overflow to infinity is not modelled.
\<close>

function bits :: "int \<Rightarrow> int" where
  "bits n = (if n \<le> 0 then 0 else 1 + bits (n div 2))"
  by auto
termination
  by (relation "measure nat") auto

definition pow2 :: "int \<Rightarrow> rat" where
  "pow2 e = (if 0 \<le> e then 2 ^ nat e else 1 / 2 ^ nat (- e))"

definition round_half_even :: "rat \<Rightarrow> int" where
  "round_half_even x =
     (let f = \<lfloor>x\<rfloor>; d = x - of_int f
      in if d < 1 / 2 then f else if 1 / 2 < d then f + 1 else if even f then f else f + 1)"

text \<open>For positive \<open>x\<close>, the \<open>e\<close> with \<open>2 ^ e \<le> x < 2 ^ (e + 1)\<close>.\<close>

definition bin_exp :: "rat \<Rightarrow> int" where
  "bin_exp x =
     (case quotient_of x of
        (a, b) \<Rightarrow>
          (let e = bits a - bits b
           in if pow2 e \<le> x then e else e - 1))"

definition float64 :: "rat \<Rightarrow> rat" where
  "float64 x =
     (if x = 0 then 0
      else (let e = max (bin_exp \<bar>x\<bar>) (- 1022) - 52
            in of_int (round_half_even (x / pow2 e)) * pow2 e))"

text \<open>Float subtraction, multiplication and division: the exact result, rounded.\<close>

definition f64_sub :: "rat \<Rightarrow> rat \<Rightarrow> rat" where
  "f64_sub a b = float64 (a - b)"

definition f64_mul :: "rat \<Rightarrow> rat \<Rightarrow> rat" where
  "f64_mul a b = float64 (a * b)"

definition f64_div :: "rat \<Rightarrow> rat \<Rightarrow> rat" where
  "f64_div a b = float64 (a / b)"

subsection \<open>Integer columns\<close>

text \<open>
  \<open>pd.read_csv\<close> gives an integer column the type int64 when every value fits, and
  uint64 otherwise (values that fit neither do not make a numeric column). Arithmetic
  of an integer column with a Python int stays in the type of the column and wraps.
\<close>

datatype int_dtype = Int64 | UInt64

definition column_dtype :: "int list \<Rightarrow> int_dtype" where
  "column_dtype xs =
     (if list_all (\<lambda>x. - (2 ^ 63) \<le> x \<and> x < 2 ^ 63) xs then Int64 else UInt64)"

definition wrap :: "int_dtype \<Rightarrow> int \<Rightarrow> int" where
  "wrap t x =
     (case t of
        Int64 \<Rightarrow> (x + 2 ^ 63) mod 2 ^ 64 - 2 ^ 63
      | UInt64 \<Rightarrow> x mod 2 ^ 64)"

section \<open>Formatted text and plotting calls\<close>

text \<open>
  An f-string is kept as its parts: literal text and the values to be formatted
  (\<open>FixedV n v\<close> is \<open>{v:.nf}\<close>, with \<open>None\<close> for NaN).
\<close>

datatype fpart =
    Lit string
  | IntV int
  | NumV "rat option"
  | FixedV nat "rat option"
  | IntsV "int list"
  | NumsV "rat list"

type_synonym ftext = "fpart list"

text \<open>
  The calls to the plotting library that carry data. Labels, titles, legend, grid,
  layout and colour bar are left out: they carry no data and do not fail.
\<close>

datatype call =
    Figure
  | Subplot nat nat nat
  | Plot "rat list" "rat list" ftext string
  | Xlim rat rat
  | Ylim rat rat
  | Axhline rat string
  | Table "ftext list list" "string list"
  | Imshow "rat option list list"
  | Xticks "int list"
  | Yticks "rat list"
  | Text nat nat ftext
  | Show

section \<open>Column operations\<close>

text \<open>\<open>Series.max()\<close>: NaN (\<open>None\<close>) on an empty column.\<close>

fun series_max :: "'a::linorder list \<Rightarrow> 'a option" where
  "series_max [] = None"
| "series_max (x # xs) = Some (fold max xs x)"


text \<open>\<open>df['multiplier_decimal']\<close>: KeyError while the column is absent.\<close>

fun column_decimal :: "frame \<Rightarrow> error + rat list" where
  "column_decimal [] = Inr []"
| "column_decimal (r # rs) =
     (case multiplier_decimal r of
        None \<Rightarrow> Inl (KeyError ''multiplier_decimal'')
      | Some d \<Rightarrow>
          (case column_decimal rs of Inl e \<Rightarrow> Inl e | Inr ds \<Rightarrow> Inr (d # ds)))"

text \<open>
  \<open>df.sort_values('tokens')\<close>. pandas sorts with NumPy's quicksort, which fixes no
  order among rows with equal tokens. The parameter \<open>tie\<close> stands for the rearrangement
  the sort makes among them: any permutation of the rows, applied before a sort that
  keeps equal keys in place. Every arrangement of the rows in ascending order of tokens
  is the result for some \<open>tie\<close>, and a \<open>tie\<close> that is not a permutation is ignored.
\<close>

definition permute :: "(frame \<Rightarrow> frame) \<Rightarrow> frame \<Rightarrow> frame" where
  "permute tie df = (if mset (tie df) = mset df then tie df else df)"

definition sort_values_tokens :: "(frame \<Rightarrow> frame) \<Rightarrow> frame \<Rightarrow> frame" where
  "sort_values_tokens tie df = sort_key tokens (permute tie df)"

text \<open>\<open>df[df['lockup_days'] == lockup]\<close>.\<close>

definition select_lockup :: "int \<Rightarrow> frame \<Rightarrow> frame" where
  "select_lockup lockup df = filter (\<lambda>r. lockup_days r = lockup) df"

text \<open>
  \<open>plt.xlim(0, m * 1.05)\<close> where \<open>m\<close> is a column maximum: the product is a float
  product, and NaN is refused.
\<close>

definition xlim_upto :: "rat option \<Rightarrow> error + call" where
  "xlim_upto m =
     (case m of
        None \<Rightarrow> Inl (ValueError ''Axis limits cannot be NaN or Inf'')
      | Some v \<Rightarrow> Inr (Xlim 0 (f64_mul (float64 v) (float64 (105 / 100)))))"

section \<open>The renderer: \<open>create_multiplier_charts\<close>\<close>

subsection \<open>Line chart\<close>

definition five_colors :: "string list" where
  "five_colors = [''gray'', ''blue'', ''green'', ''orange'', ''black'']"

text \<open>\<open>sorted(df['lockup_days'].unique())\<close>.\<close>

definition lockup_periods :: "frame \<Rightarrow> int list" where
  "lockup_periods df = sort (remdups (map lockup_days df))"

text \<open>
  The loop over \<open>enumerate(lockup_periods)\<close>. The arguments of \<open>plt.plot\<close> are
  evaluated left to right: the two columns of \<open>data\<close>, the label, then \<open>colors[i]\<close>,
  which raises IndexError when \<open>i\<close> is not below the length of \<open>colors\<close>.
\<close>

fun plot_loop ::
  "(frame \<Rightarrow> frame) \<Rightarrow> frame \<Rightarrow> string list \<Rightarrow> (nat \<times> int) list \<Rightarrow> error + call list" where
  "plot_loop tie df colors [] = Inr []"
| "plot_loop tie df colors ((i, lockup) # rest) =
     (let data = sort_values_tokens tie (select_lockup lockup df)
      in case column_decimal data of
           Inl e \<Rightarrow> Inl e
         | Inr ys \<Rightarrow>
             if i < length colors
             then (case plot_loop tie df colors rest of
                     Inl e \<Rightarrow> Inl e
                   | Inr cs \<Rightarrow>
                       Inr (Plot (map tokens data) ys [IntV lockup, Lit '' days''] (colors ! i) # cs))
             else Inl IndexError)"

definition line_chart :: "(frame \<Rightarrow> frame) \<Rightarrow> frame \<Rightarrow> error + call list" where
  "line_chart tie df =
     (let periods = lockup_periods df;
          colors = take (length periods) five_colors
      in case plot_loop tie df colors (enumerate 0 periods) of
           Inl e \<Rightarrow> Inl e
         | Inr plots \<Rightarrow>
             (case xlim_upto (series_max (map tokens df)) of
                Inl e \<Rightarrow> Inl e
              | Inr xl \<Rightarrow>
                  Inr ([Figure] @ plots @
                       [xl, Ylim 1 (16 / 10), Axhline 1 ''gray'', Axhline (15 / 10) ''black'', Show])))"

subsection \<open>Bonus chart and summary table\<close>

definition base_multiplier :: int where
  "base_multiplier = 10000"

text \<open>\<open>int(x)\<close> of a float: truncation towards zero.\<close>

definition py_int :: "rat \<Rightarrow> int" where
  "py_int x = (if 0 \<le> x then \<lfloor>x\<rfloor> else \<lceil>x\<rceil>)"

text \<open>\<open>df_365 = df[df['lockup_days'] == 365].sort_values('tokens')\<close>.\<close>

definition df_365 :: "(frame \<Rightarrow> frame) \<Rightarrow> frame \<Rightarrow> frame" where
  "df_365 tie df = sort_values_tokens tie (select_lockup 365 df)"

text \<open>
  \<open>total_bonus = df_365['multiplier'] - base_multiplier\<close>: integer arithmetic in the
  type \<open>t\<close> of the multiplier column.
\<close>

definition total_bonus :: "int_dtype \<Rightarrow> frame \<Rightarrow> int list" where
  "total_bonus t d = map (\<lambda>r. wrap t (multiplier r - base_multiplier)) d"

text \<open>\<open>total_bonus / 100\<close>: each integer is converted to a float and divided.\<close>

definition bonus_percent :: "int_dtype \<Rightarrow> frame \<Rightarrow> rat list" where
  "bonus_percent t d = map (\<lambda>b. f64_div (float64 (of_int b)) 100) (total_bonus t d)"

text \<open>
  The loop over \<open>df_365.iterrows()\<close> that fills \<open>comparison_data\<close>. A row comes as a
  float64 series, since one of the columns is a float column: every value read from
  \<open>row\<close> is the float nearest to the value in the table, and the bonus of the table
  cell is computed in float arithmetic.
\<close>

fun comparison_data :: "frame \<Rightarrow> error + ftext list list" where
  "comparison_data [] = Inr []"
| "comparison_data (r # rs) =
     (case multiplier_decimal r of
        None \<Rightarrow> Inl (KeyError ''multiplier_decimal'')
      | Some d \<Rightarrow>
          (case comparison_data rs of
             Inl e \<Rightarrow> Inl e
           | Inr rest \<Rightarrow>
               Inr ([[IntV (py_int (float64 (tokens r))), Lit '' tokens''],
                     [FixedV 3 (Some (float64 d)), Lit ''x''],
                     [FixedV 1
                        (Some (f64_div
                                 (f64_sub (float64 (of_int (multiplier r)))
                                    (of_int base_multiplier))
                                 100)),
                      Lit ''%'']]
                    # rest)))"

definition bonus_chart :: "(frame \<Rightarrow> frame) \<Rightarrow> frame \<Rightarrow> error + call list" where
  "bonus_chart tie df =
     (let d = df_365 tie df;
          t = column_dtype (map multiplier df)
      in case xlim_upto (series_max (map tokens d)) of
           Inl e \<Rightarrow> Inl e
         | Inr xl \<Rightarrow>
             (case comparison_data d of
                Inl e \<Rightarrow> Inl e
              | Inr tbl \<Rightarrow>
                  Inr [Figure, Subplot 2 1 1, Plot (map tokens d) (bonus_percent t d) [] ''b'', xl,
                       Subplot 2 1 2, Table tbl [''Amount'', ''Multiplier'', ''Total Bonus''],
                       Show]))"

subsection \<open>Heat map\<close>

text \<open>
  \<open>df.pivot(index='tokens', columns='lockup_days', values='multiplier_decimal')\<close> of
  pandas: a ValueError when an (index, column) pair occurs twice; otherwise the grid
  over the sorted distinct index and column values, NaN (\<open>None\<close>) where no row has
  the pair.
\<close>

definition pairs :: "frame \<Rightarrow> (rat \<times> int) list" where
  "pairs df = map (\<lambda>r. (tokens r, lockup_days r)) df"

definition cell :: "frame \<Rightarrow> rat \<Rightarrow> int \<Rightarrow> rat option" where
  "cell df t l =
     (case find (\<lambda>r. tokens r = t \<and> lockup_days r = l) df of
        None \<Rightarrow> None
      | Some r \<Rightarrow> multiplier_decimal r)"

record pivot_table =
  index :: "rat list"
  columns :: "int list"
  cells :: "rat option list list"

definition pivot :: "frame \<Rightarrow> error + pivot_table" where
  "pivot df =
     (case column_decimal df of
        Inl e \<Rightarrow> Inl e
      | Inr _ \<Rightarrow>
          if distinct (pairs df)
          then (let idx = sort (remdups (map tokens df));
                    cols = lockup_periods df
                in Inr \<lparr>index = idx, columns = cols,
                        cells = map (\<lambda>t. map (\<lambda>l. cell df t l) cols) idx\<rparr>)
          else Inl (ValueError ''Index contains duplicate entries, cannot reshape''))"

text \<open>
  The annotation loops over \<open>i\<close> and \<open>j\<close>. The value formatted is a float: the float
  nearest to the cell of the model.
\<close>

definition annotations :: "rat option list list \<Rightarrow> call list" where
  "annotations vs =
     concat (map (\<lambda>(i, rw). map (\<lambda>(j, v). Text j i [FixedV 3 (map_option float64 v)])
                              (enumerate 0 rw))
               (enumerate 0 vs))"

definition heatmap :: "frame \<Rightarrow> error + call list" where
  "heatmap df =
     (case pivot df of
        Inl e \<Rightarrow> Inl e
      | Inr p \<Rightarrow>
          Inr ([Figure, Imshow (cells p), Xticks (columns p), Yticks (index p)]
               @ annotations (cells p) @ [Show]))"

subsection \<open>The whole renderer\<close>

text \<open>
  \<open>df\<close> is a reference to the caller's table: the heap maps references to tables, and
  the assignment of the derived column updates the table in the heap. The tables cut
  out by filtering and sorting are new objects and stay local.
\<close>

type_synonym ref = nat
type_synonym heap = "ref \<Rightarrow> frame"

definition render :: "(frame \<Rightarrow> frame) \<Rightarrow> frame \<Rightarrow> error + call list" where
  "render tie df =
     (case line_chart tie df of
        Inl e \<Rightarrow> Inl e
      | Inr c1 \<Rightarrow>
          (case bonus_chart tie df of
             Inl e \<Rightarrow> Inl e
           | Inr c2 \<Rightarrow>
               (case heatmap df of
                  Inl e \<Rightarrow> Inl e
                | Inr c3 \<Rightarrow> Inr (c1 @ c2 @ c3))))"

definition create_multiplier_charts ::
  "(frame \<Rightarrow> frame) \<Rightarrow> ref \<Rightarrow> heap \<Rightarrow> heap \<times> (error + call list)" where
  "create_multiplier_charts tie df h =
     (let h' = h(df := derive (h df))
      in (h', render tie (h' df)))"

section \<open>The top level: \<open>main\<close>\<close>







section \<open>Sample inputs\<close>

text \<open>The table of four rows used as the worked example.\<close>

definition grid :: frame where
  "grid = [mk_row 100 30 10000, mk_row 100 365 15000, mk_row 200 30 10050, mk_row 200 365 15200]"

text \<open>Two stand-ins for \<open>pd.read_csv\<close>: one where only \<open>multipliers.csv\<close> exists, one where no file does.\<close>

definition sample_read_csv :: "source \<Rightarrow> error + frame" where
  "sample_read_csv s =
     (case s of
        Path p \<Rightarrow> if p = ''multipliers.csv'' then Inr grid else Inl (FileNotFoundError p)
      | Buffer b \<Rightarrow> Inr [mk_row 1 30 10000])"


definition example_text :: string where
  "example_text =
     ''tokens,lockup_days,multiplier'' @ [newline] @ ''100,30,10000'' @ [newline]
       @ ''hello'' @ [newline] @ ''200,365,12000''"

definition example_csv :: string where
  "example_csv =
     ''tokens,lockup_days,multiplier'' @ [newline] @ ''100,30,10000'' @ [newline]
       @ ''200,365,12000''"

text \<open>A text whose second line is the header behind a space.\<close>

definition padded_text :: string where
  "padded_text = ''x'' @ [newline] @ '' tokens,lockup_days,multiplier''"


section \<open>Properties named by the specification\<close>

text \<open>
  The pairs of a table form a complete rectangular grid: every distinct tokens value
  occurs with every distinct lockup value.
\<close>

definition complete_grid :: "frame \<Rightarrow> bool" where
  "complete_grid df =
     list_all (\<lambda>t. list_all (\<lambda>l. (t, l) \<in> set (pairs df)) (lockup_periods df))
       (sort (remdups (map tokens df)))"

definition no_nan :: "rat option list list \<Rightarrow> bool" where
  "no_nan vs = list_all (list_all (\<lambda>v. v \<noteq> None)) vs"

text \<open>
  The extractor as the specification words it: a line is kept when it is the literal
  header, or when it consists of digits once commas and spaces are removed.
\<close>

definition spec_keeps :: "string \<Rightarrow> bool" where
  "spec_keeps line =
     (line = header \<or> isdigit (replace_del CHR '' '' (replace_del CHR '','' line)))"

definition spec_extract :: "string \<Rightarrow> string" where
  "spec_extract forge_output_text =
     join [newline] (filter spec_keeps (split_nl forge_output_text))"

text \<open>The test the loop of the source applies to a line.\<close>

definition kept :: "string \<Rightarrow> bool" where
  "kept line = (numeric_line line \<or> header_line line)"


section \<open>Facts about sorting and floats\<close>

lemma permute_mset: "mset (permute tie df) = mset df"
  by (simp add: permute_def)

lemma sort_values_mset: "mset (sort_values_tokens tie df) = mset df"
  by (simp add: sort_values_tokens_def permute_mset)

lemma sort_values_set: "set (sort_values_tokens tie df) = set df"
  using sort_values_mset [of tie df] by (rule mset_eq_setD)


lemma sort_values_Nil: "sort_values_tokens tie [] = []"
  using sort_values_mset [of tie "[]"] by simp


declare bits.simps [simp del]

lemma bits_le: "0 \<le> k \<Longrightarrow> n < 2 ^ nat k \<Longrightarrow> bits n \<le> k"
proof (induction n arbitrary: k rule: bits.induct)
  case (1 n)
  show ?case
  proof (cases "n \<le> 0")
    case True
    then show ?thesis using 1 by (simp add: bits.simps)
  next
    case False
    then have kpos: "0 < k" using 1(2,3) by (cases "k = 0") auto
    then have e: "(2::int) ^ nat k = 2 * 2 ^ nat (k - 1)"
      by (metis Suc_nat_eq_nat_zadd1 add.commute diff_add_cancel power_Suc zle_diff1_eq)
    have "n div 2 < 2 ^ nat (k - 1)"
      using 1(3) unfolding e by linarith
    from 1(1)[OF False _ this] kpos have "bits (n div 2) \<le> k - 1" by simp
    then show ?thesis using False by (subst bits.simps) simp
  qed
qed

lemma round_half_even_int: "round_half_even (of_int z) = z"
  by (simp add: round_half_even_def)

lemma bits_one: "bits 1 = 1"
  by (simp add: bits.simps)

lemma bin_exp_int: "0 < n \<Longrightarrow> n < 2 ^ 53 \<Longrightarrow> bin_exp (of_int n) \<le> 52"
  using bits_le [of 53 n] by (simp add: bin_exp_def bits_one Let_def)

text \<open>An integer of magnitude below \<open>2 ^ 53\<close> is a float.\<close>

lemma float64_of_int:
  assumes "\<bar>n\<bar> < 2 ^ 53"
  shows "float64 (of_int n) = of_int n"
proof (cases "n = 0")
  case True
  then show ?thesis by (simp add: float64_def)
next
  case False
  define e where "e = max (bin_exp \<bar>of_int n\<bar>) (- 1022) - 52"
  have a: "\<bar>of_int n :: rat\<bar> = of_int \<bar>n\<bar>" by simp
  have "bin_exp (of_int \<bar>n\<bar>) \<le> 52"
    using bin_exp_int [of "\<bar>n\<bar>"] False assms by simp
  then have e0: "e \<le> 0" unfolding e_def a by simp
  define k where "k = nat (- e)"
  have p: "pow2 e = 1 / 2 ^ k"
    using e0 by (cases "e = 0") (simp_all add: pow2_def k_def)
  have "of_int n / pow2 e = (of_int (n * 2 ^ k) :: rat)"
    by (simp add: p)
  then have r: "round_half_even (of_int n / pow2 e) = n * 2 ^ k"
    by (simp only: round_half_even_int)
  have "float64 (of_int n) = of_int (round_half_even (of_int n / pow2 e)) * pow2 e"
    using False by (simp add: float64_def Let_def e_def)
  then have "float64 (of_int n) = of_int (n * 2 ^ k) * pow2 e"
    by (simp only: r)
  then show ?thesis by (simp add: p)
qed

text \<open>
  The float the code stores in the derived column is the float quotient of the
  multiplier by 10000. For a multiplier of magnitude below \<open>2 ^ 53\<close> it is the float
  nearest to the exact quotient, which is what a read of the exact column gives.
\<close>

lemma float64_quotient:
  "\<bar>m\<bar> < 2 ^ 53 \<Longrightarrow> f64_div (float64 (of_int m)) 10000 = float64 (of_int m / 10000)"
  by (simp add: float64_of_int f64_div_def)





section \<open>Facts about the derived table\<close>

lemma derive_lockups: "map lockup_days (derive df) = map lockup_days df"
  by (simp add: derive_def)

lemma derive_tokens: "map tokens (derive df) = map tokens df"
  by (simp add: derive_def)

lemma derive_multiplier: "map multiplier (derive df) = map multiplier df"
  by (simp add: derive_def)

lemma derive_decimal:
  "r \<in> set (derive df) \<Longrightarrow> multiplier_decimal r = Some (of_int (multiplier r) / 10000)"
  by (auto simp: derive_def)

lemma derive_pairs: "pairs (derive df) = pairs df"
  by (simp add: pairs_def derive_def)

lemma derive_periods: "lockup_periods (derive df) = lockup_periods df"
  by (simp add: lockup_periods_def derive_lockups)

lemma column_decimal_present:
  "(\<And>r. r \<in> set df \<Longrightarrow> multiplier_decimal r \<noteq> None) \<Longrightarrow> \<exists>ys. column_decimal df = Inr ys"
  by (induction df) (auto split: option.splits sum.splits)

lemma column_decimal_derive: "\<exists>ys. column_decimal (derive df) = Inr ys"
  by (rule column_decimal_present) (simp add: derive_decimal)

section \<open>The heat map pivot\<close>

lemma cell_derive:
  "(cell (derive df) t l \<noteq> None) = ((t, l) \<in> set (pairs df))"
proof -
  let ?P = "\<lambda>r. tokens r = t \<and> lockup_days r = l"
  have none: "(find ?P (derive df) = None) = ((t, l) \<notin> set (pairs df))"
    by (auto simp: find_None_iff pairs_def derive_def)
  have some: "multiplier_decimal r \<noteq> None" if "find ?P (derive df) = Some r" for r
  proof -
    from that have "r \<in> set (derive df)" by (auto simp: find_Some_iff)
    then show ?thesis using derive_decimal by fastforce
  qed
  show ?thesis
  proof (cases "find ?P (derive df)")
    case None
    then show ?thesis using none by (simp add: cell_def)
  next
    case (Some r)
    then show ?thesis using none some[OF Some] by (simp add: cell_def)
  qed
qed

lemma pivot_derive_ok:
  assumes "distinct (pairs df)"
  shows "pivot (derive df) =
           Inr \<lparr>index = sort (remdups (map tokens df)), columns = lockup_periods df,
                cells = map (\<lambda>t. map (\<lambda>l. cell (derive df) t l) (lockup_periods df))
                          (sort (remdups (map tokens df)))\<rparr>"
proof -
  obtain ys where "column_decimal (derive df) = Inr ys" using column_decimal_derive by blast
  then show ?thesis using assms
    by (simp add: pivot_def derive_pairs derive_tokens derive_periods Let_def)
qed

lemma pivot_derive_dup:
  assumes "\<not> distinct (pairs df)"
  shows "pivot (derive df) = Inl (ValueError ''Index contains duplicate entries, cannot reshape'')"
proof -
  obtain ys where "column_decimal (derive df) = Inr ys" using column_decimal_derive by blast
  then show ?thesis using assms
    by (simp add: pivot_def derive_pairs)
qed

lemma no_nan_complete:
  "no_nan (map (\<lambda>t. map (\<lambda>l. cell (derive df) t l) (lockup_periods df)) (sort (remdups (map tokens df))))
     = complete_grid df"
  by (simp add: no_nan_def complete_grid_def list_all_iff cell_derive del: not_None_eq)

text \<open>
  C3, as amended. The pivot of the derived table raises exactly when some
  (tokens, lockup_days) pair occurs twice. Otherwise it succeeds, indexed by the sorted
  distinct tokens and the sorted distinct lockup values, and its grid is free of NaN
  exactly when the pairs form a complete rectangular grid: a missing pair gives a NaN
  cell, not an error. For the four rows of the example it is the 2x2 grid with row
  index [100, 200] and column index [30, 365].
\<close>

theorem pivot_grid:
  "(\<not> distinct (pairs df) \<longrightarrow>
      pivot (derive df) = Inl (ValueError ''Index contains duplicate entries, cannot reshape''))
   \<and> (distinct (pairs df) \<longrightarrow>
        (\<exists>p. pivot (derive df) = Inr p
           \<and> index p = sort (remdups (map tokens df))
           \<and> columns p = lockup_periods df
           \<and> no_nan (cells p) = complete_grid df))
   \<and> pivot (derive grid) =
        Inr \<lparr>index = [100, 200], columns = [30, 365],
             cells = [[Some 1, Some (3 / 2)], [Some (201 / 200), Some (38 / 25)]]\<rparr>"
proof (intro conjI impI)
  assume "\<not> distinct (pairs df)"
  then show "pivot (derive df) = Inl (ValueError ''Index contains duplicate entries, cannot reshape'')"
    by (rule pivot_derive_dup)
next
  assume d: "distinct (pairs df)"
  show "\<exists>p. pivot (derive df) = Inr p
           \<and> index p = sort (remdups (map tokens df))
           \<and> columns p = lockup_periods df
           \<and> no_nan (cells p) = complete_grid df"
    using pivot_derive_ok[OF d] no_nan_complete[of df] by simp
next
  show "pivot (derive grid) =
        Inr \<lparr>index = [100, 200], columns = [30, 365],
             cells = [[Some 1, Some (3 / 2)], [Some (201 / 200), Some (38 / 25)]]\<rparr>"
    by code_simp
qed

theorem pivot_grid_witness:
  "distinct (pairs grid) \<and> complete_grid grid
   \<and> pivot (derive grid) =
        Inr \<lparr>index = [100, 200], columns = [30, 365],
             cells = [[Some 1, Some (3 / 2)], [Some (201 / 200), Some (38 / 25)]]\<rparr>
   \<and> \<not> distinct (pairs [mk_row 100 30 10000, mk_row 100 30 10050])
   \<and> pivot (derive [mk_row 100 30 10000, mk_row 100 30 10050]) =
        Inl (ValueError ''Index contains duplicate entries, cannot reshape'')"
proof -
  have d: "distinct (pairs grid)" by code_simp
  have c: "complete_grid grid" by code_simp
  have n: "\<not> distinct (pairs [mk_row 100 30 10000, mk_row 100 30 10050])" by code_simp
  show ?thesis
    using d c n pivot_grid [of grid] pivot_grid [of "[mk_row 100 30 10000, mk_row 100 30 10050]"]
    by simp
qed

text \<open>
  Against C3 as stated: the pair (100, 365) is missing from this table, and the pivot
  succeeds with NaN in its place.
\<close>

theorem pivot_missing_pair:
  "\<not> complete_grid [mk_row 100 30 10000, mk_row 200 365 15200]
   \<and> pivot (derive [mk_row 100 30 10000, mk_row 200 365 15200]) =
     Inr \<lparr>index = [100, 200], columns = [30, 365],
          cells = [[Some 1, None], [None, Some (38 / 25)]]\<rparr>"
  by code_simp

section \<open>The loader\<close>

text \<open>
  Against C1 as stated: with both a text and a file path supplied the loader does not
  fail; it reads the file and ignores the text.
\<close>

theorem loader_both_supplied:
  "read_multiplier_data sample_read_csv (Some header) (Some ''multipliers.csv'') =
     ([Path ''multipliers.csv''], Inr grid)"
  by (simp add: read_multiplier_data_def truthy_def sample_read_csv_def)

text \<open>
  C1, as amended. The loader fails with its ValueError, reading nothing, when neither
  argument is a non-empty value. When the file path is non-empty it hands that path
  alone to \<open>pd.read_csv\<close>, whether or not a text is supplied too. Otherwise, when the
  text is non-empty, it hands the text alone to \<open>pd.read_csv\<close>.
\<close>

theorem loader_sources:
  "(\<not> truthy csv_file \<and> \<not> truthy csv_content \<longrightarrow>
      read_multiplier_data read_csv csv_content csv_file =
        ([], Inl (ValueError ''Must provide either csv_content or csv_file'')))
   \<and> (truthy csv_file \<and> csv_file = Some f \<longrightarrow>
        read_multiplier_data read_csv csv_content csv_file = ([Path f], read_csv (Path f)))
   \<and> (\<not> truthy csv_file \<and> truthy csv_content \<and> csv_content = Some c \<longrightarrow>
        read_multiplier_data read_csv csv_content csv_file = ([Buffer c], read_csv (Buffer c)))"
  by (auto simp: read_multiplier_data_def truthy_def split: option.splits bool.splits)

theorem loader_sources_witness:
  "read_multiplier_data sample_read_csv None None =
     ([], Inl (ValueError ''Must provide either csv_content or csv_file''))
   \<and> read_multiplier_data sample_read_csv None (Some ''multipliers.csv'') =
     ([Path ''multipliers.csv''], Inr grid)
   \<and> read_multiplier_data sample_read_csv (Some ''1,30,10000'') None =
     ([Buffer ''1,30,10000''], Inr [mk_row 1 30 10000])"
  using loader_sources [where csv_file = None and csv_content = None
                          and read_csv = sample_read_csv]
        loader_sources [where csv_file = "Some ''multipliers.csv''" and csv_content = None
                          and f = "''multipliers.csv''" and read_csv = sample_read_csv]
        loader_sources [where csv_file = None and csv_content = "Some ''1,30,10000''"
                          and c = "''1,30,10000''" and read_csv = sample_read_csv]
  by (simp add: truthy_def sample_read_csv_def)

section \<open>The deriver\<close>



lemma derive_all_present: "list_all (\<lambda>r. multiplier_decimal r \<noteq> None) (derive df)"
  by (simp add: derive_def list_all_iff del: not_None_eq)

text \<open>
  Against C9 as stated: the caller's table is not left unchanged.
\<close>

theorem deriver_changes_caller_table:
  "fst (create_multiplier_charts id 0 (\<lambda>_. grid)) 0 \<noteq> grid
   \<and> map multiplier_decimal grid = [None, None, None, None]
   \<and> map multiplier_decimal (fst (create_multiplier_charts id 0 (\<lambda>_. grid)) 0)
       = [Some 1, Some (3 / 2), Some (201 / 200), Some (38 / 25)]"
proof -
  have a: "map multiplier_decimal grid = [None, None, None, None]"
    by (simp add: grid_def mk_row_def)
  have b: "map multiplier_decimal (fst (create_multiplier_charts id 0 (\<lambda>_. grid)) 0)
       = [Some 1, Some (3 / 2), Some (201 / 200), Some (38 / 25)]"
    by (simp add: create_multiplier_charts_def derive_def grid_def mk_row_def Let_def)
  have "fst (create_multiplier_charts id 0 (\<lambda>_. grid)) 0 \<noteq> grid"
  proof
    assume "fst (create_multiplier_charts id 0 (\<lambda>_. grid)) 0 = grid"
    then have "map multiplier_decimal (fst (create_multiplier_charts id 0 (\<lambda>_. grid)) 0)
                 = map multiplier_decimal grid"
      by simp
    then show False unfolding a b by simp
  qed
  with a b show ?thesis by simp
qed

text \<open>
  C9, as amended. The deriver writes the multiplier_decimal column into the caller's
  table in place: after the call the table at \<open>df\<close> is the derived table, with the
  tokens, lockup_days and multiplier columns as before and multiplier_decimal present
  in every row; every other table of the heap is unchanged.
\<close>

theorem deriver_in_place:
  "fst (create_multiplier_charts tie df h) df = derive (h df)
   \<and> (\<forall>a. a \<noteq> df \<longrightarrow> fst (create_multiplier_charts tie df h) a = h a)
   \<and> map tokens (fst (create_multiplier_charts tie df h) df) = map tokens (h df)
   \<and> map lockup_days (fst (create_multiplier_charts tie df h) df) = map lockup_days (h df)
   \<and> map multiplier (fst (create_multiplier_charts tie df h) df) = map multiplier (h df)
   \<and> list_all (\<lambda>r. multiplier_decimal r \<noteq> None) (fst (create_multiplier_charts tie df h) df)"
  by (simp add: create_multiplier_charts_def Let_def derive_tokens derive_lockups
        derive_multiplier derive_all_present del: not_None_eq)

theorem deriver_in_place_witness:
  "fst (create_multiplier_charts (\<lambda>d. d) 0
          (((\<lambda>_. [])(0 := grid))(1 := [mk_row 1 30 10000]))) 1
     = [mk_row 1 30 10000]
   \<and> fst (create_multiplier_charts (\<lambda>d. d) 0
            (((\<lambda>_. [])(0 := grid))(1 := [mk_row 1 30 10000]))) 0
     = derive grid"
  using deriver_in_place
          [where tie = "\<lambda>d. d" and df = 0
             and h = "((\<lambda>_. [])(0 := grid))(1 := [mk_row 1 30 10000])"]
  by simp

section \<open>The top level on a missing file\<close>



section \<open>The line chart\<close>

lemma plot_loop_index_error:
  "(\<And>r. r \<in> set df \<Longrightarrow> multiplier_decimal r \<noteq> None) \<Longrightarrow>
   length colors < n + length ps \<Longrightarrow> ps \<noteq> [] \<Longrightarrow>
   plot_loop tie df colors (enumerate n ps) = Inl IndexError"
proof (induction ps arbitrary: n)
  case Nil
  then show ?case by simp
next
  case (Cons p ps)
  have sub: "\<And>r. r \<in> set (sort_values_tokens tie (select_lockup p df)) \<Longrightarrow> multiplier_decimal r \<noteq> None"
    using Cons.prems(1) by (auto simp: sort_values_set select_lockup_def)
  obtain ys where ys: "column_decimal (sort_values_tokens tie (select_lockup p df)) = Inr ys"
    using column_decimal_present[OF sub] by blast
  show ?case
  proof (cases "n < length colors")
    case True
    then have l: "length colors < Suc n + length ps" and ne: "ps \<noteq> []"
      using Cons.prems(2) by auto
    from Cons.IH[OF Cons.prems(1) l ne] show ?thesis using ys True by (simp add: Let_def)
  next
    case False
    then show ?thesis using ys by (simp add: Let_def)
  qed
qed


lemma length_lockup_periods: "length (lockup_periods df) = card (set (map lockup_days df))"
  by (simp add: lockup_periods_def length_remdups_card_conv)

lemma line_chart_index_error:
  assumes "5 < card (set (map lockup_days df))"
  shows "line_chart tie (derive df) = Inl IndexError"
proof -
  let ?ps = "lockup_periods (derive df)"
  have len: "5 < length ?ps"
    using assms by (simp add: derive_periods length_lockup_periods)
  then have ne: "?ps \<noteq> []" by auto
  have present: "\<And>r. r \<in> set (derive df) \<Longrightarrow> multiplier_decimal r \<noteq> None"
    by (simp add: derive_decimal)
  have "length (take (length ?ps) five_colors) < 0 + length ?ps"
    using len by (simp add: five_colors_def)
  from plot_loop_index_error[OF present this ne]
  show ?thesis by (simp add: line_chart_def Let_def)
qed



text \<open>
  C10. When the table at \<open>df\<close> has more than five distinct lockup_days values, the line
  chart, and with it the renderer, raises IndexError at \<open>colors[i]\<close>.
\<close>

theorem line_chart_six_lockups:
  "5 < card (set (map lockup_days (h df))) \<Longrightarrow>
   line_chart tie (derive (h df)) = Inl IndexError
   \<and> snd (create_multiplier_charts tie df h) = Inl IndexError"
  using line_chart_index_error [of "h df" tie]
  by (simp add: create_multiplier_charts_def render_def Let_def)

theorem line_chart_six_lockups_witness:
  "5 < card (set (map lockup_days (map (\<lambda>l. mk_row 100 l 10000) [7, 30, 90, 180, 270, 365])))
   \<and> snd (create_multiplier_charts (\<lambda>d. d) 0
             (\<lambda>_. map (\<lambda>l. mk_row 100 l 10000) [7, 30, 90, 180, 270, 365]))
       = Inl IndexError"
proof -
  have h: "5 < card (set (map lockup_days (map (\<lambda>l. mk_row 100 l 10000) [7, 30, 90, 180, 270, 365])))"
    by (simp add: mk_row_def)
  show ?thesis
    using h line_chart_six_lockups
            [where h = "\<lambda>_. map (\<lambda>l. mk_row 100 l 10000) [7, 30, 90, 180, 270, 365]"
               and df = 0 and tie = "\<lambda>d. d"]
    by simp
qed

section \<open>The bonus chart\<close>
























lemma bonus_chart_without_365:
  assumes "365 \<notin> set (map lockup_days df)"
  shows "df_365 tie df = []"
    and "bonus_chart tie df = Inl (ValueError ''Axis limits cannot be NaN or Inf'')"
proof -
  have "select_lockup 365 df = []"
    using assms by (auto simp: select_lockup_def filter_empty_conv)
  then show e: "df_365 tie df = []"
    by (simp add: df_365_def sort_values_Nil)
  show "bonus_chart tie df = Inl (ValueError ''Axis limits cannot be NaN or Inf'')"
    by (simp add: bonus_chart_def e xlim_upto_def Let_def)
qed

text \<open>
  C8 at a table with no 365-day row: the filtered table is empty, the maximum of its
  tokens column is NaN, and setting the axis limit raises ValueError; the bonus chart
  does not complete.
\<close>

theorem bonus_chart_no_365_row:
  "df_365 tie (derive [mk_row 100 30 10000]) = []
   \<and> bonus_chart tie (derive [mk_row 100 30 10000]) =
       Inl (ValueError ''Axis limits cannot be NaN or Inf'')"
proof -
  have "365 \<notin> set (map lockup_days (derive [mk_row 100 30 10000]))"
    by (simp add: derive_def mk_row_def)
  then show ?thesis
    by (simp only: bonus_chart_without_365 simp_thms)
qed

section \<open>The extractor\<close>

lemma extract_loop_filter:
  "extract_loop ls acc = acc @ map strip (filter kept ls)"
  by (induction ls arbitrary: acc) (auto simp: kept_def)

lemma parse_forge_output_filter:
  "parse_forge_output t = join [newline] (map strip (filter kept (split_nl (strip t))))"
  by (simp add: parse_forge_output_def extract_loop_filter)

lemma mem_dropWhile: "x \<in> set xs \<Longrightarrow> \<not> P x \<Longrightarrow> x \<in> set (dropWhile P xs)"
  by (induction xs) auto

lemma mem_strip: "x \<in> set s \<Longrightarrow> \<not> is_space x \<Longrightarrow> x \<in> set (strip s)"
  by (simp add: strip_def mem_dropWhile)

lemma point_not_numeric: "CHR ''.'' \<in> set line \<Longrightarrow> \<not> numeric_line line"
  by (auto simp: numeric_line_def isdigit_def replace_del_def list_all_iff is_digit_def Let_def)

lemma point_not_header: "CHR ''.'' \<in> set line \<Longrightarrow> \<not> header_line line"
proof
  assume p: "CHR ''.'' \<in> set line" and h: "header_line line"
  have "\<not> is_space CHR ''.''" by (simp add: is_space_def Let_def)
  with p have "CHR ''.'' \<in> set (strip line)" by (rule mem_strip)
  with h have "CHR ''.'' \<in> set header" by (simp add: header_line_def)
  then show False by (simp add: header_def)
qed

text \<open>A kept line is not blank, so the join of kept lines is empty only when there are none.\<close>

lemma kept_strip_nonempty: "kept line \<Longrightarrow> strip line \<noteq> []"
proof -
  assume "kept line"
  then consider "numeric_line line" | "header_line line" by (auto simp: kept_def)
  then show ?thesis
  proof cases
    case 1
    then have "CHR '','' \<in> set line" by (simp add: numeric_line_def)
    moreover have "\<not> is_space CHR '',''" by (simp add: is_space_def Let_def)
    ultimately have "CHR '','' \<in> set (strip line)" by (rule mem_strip)
    then show ?thesis by auto
  next
    case 2
    then show ?thesis by (simp add: header_line_def header_def)
  qed
qed

lemma join_nonempty: "x \<noteq> [] \<Longrightarrow> join sep (x # xs) \<noteq> []"
  by (cases xs) simp_all

lemma parse_forge_output_empty:
  "(parse_forge_output t = []) = (filter kept (split_nl (strip t)) = [])"
proof (cases "filter kept (split_nl (strip t))")
  case Nil
  then show ?thesis by (simp add: parse_forge_output_filter)
next
  case (Cons l ls)
  then have "l \<in> set (filter kept (split_nl (strip t)))" by simp
  then have "kept l" by simp
  then have "strip l \<noteq> []" by (rule kept_strip_nonempty)
  then show ?thesis using Cons by (simp add: parse_forge_output_filter join_nonempty)
qed

text \<open>
  Against C5 as stated: the line \<open>12345\<close> consists of digits, so the extractor as
  worded keeps it, but the source drops it because it contains no comma.
\<close>

theorem extractor_drops_comma_free_digits:
  "spec_keeps ''12345'' \<and> spec_extract ''12345'' = ''12345'' \<and> parse_forge_output ''12345'' = []"
  by code_simp

text \<open>
  C5, as amended. The extractor trims the text, splits it at newlines and keeps, in
  their order and joined by newlines, the trimmed forms of exactly those lines that
  either contain a comma and consist of digits once commas and spaces are removed, or
  equal the header once trimmed. A line containing a decimal point is never kept.
\<close>

theorem extractor_lines:
  "parse_forge_output t = join [newline] (map strip (filter kept (split_nl (strip t))))
   \<and> kept line =
       (CHR '','' \<in> set line \<and> isdigit (replace_del CHR '' '' (replace_del CHR '','' line))
        \<or> strip line = header)
   \<and> (CHR ''.'' \<in> set line \<longrightarrow> \<not> kept line)"
  using point_not_numeric [of line] point_not_header [of line]
  by (auto simp: parse_forge_output_filter kept_def numeric_line_def header_line_def)

theorem extractor_lines_witness:
  "CHR ''.'' \<in> set ''1.5,2'' \<and> \<not> kept ''1.5,2''
   \<and> parse_forge_output (''1.5,2'' @ [newline] @ '' 3, 4 '') = ''3, 4''"
proof -
  have p: "CHR ''.'' \<in> set ''1.5,2''" by simp
  have e: "join [newline] (map strip (filter kept (split_nl (strip (''1.5,2'' @ [newline] @ '' 3, 4 '')))))
             = ''3, 4''"
    by code_simp
  note t = extractor_lines [of "''1.5,2'' @ [newline] @ '' 3, 4 ''" "''1.5,2''"]
  have a: "parse_forge_output (''1.5,2'' @ [newline] @ '' 3, 4 '') = ''3, 4''"
    by (rule trans [OF t [THEN conjunct1] e])
  have k: "\<not> kept ''1.5,2''"
    using t [THEN conjunct2, THEN conjunct2] p by blast
  show ?thesis using p a k by blast
qed

text \<open>
  Against C6 as stated: in the text made of the line \<open>x\<close> and the header behind a
  space, no line is the literal header and none consists of digits once commas and
  spaces are removed, yet the extractor returns the header, not the empty string.
\<close>

theorem extractor_padded_header:
  "list_all (\<lambda>l. \<not> spec_keeps l) (split_nl padded_text)
   \<and> list_all (\<lambda>l. \<not> spec_keeps l) (split_nl (strip padded_text))
   \<and> parse_forge_output padded_text = ''tokens,lockup_days,multiplier''"
  by code_simp

text \<open>
  C6, as amended. On the example text the extractor returns the header and the two
  numeric lines, without the line \<open>hello\<close>. When no line of the trimmed text is the
  literal header, consists of digits once commas and spaces are removed, or equals the
  header once trimmed, it returns the empty string. It returns the empty string exactly
  when no line of the trimmed text contains a comma and consists of digits once commas
  and spaces are removed, or equals the header once trimmed.
\<close>

theorem extractor_example:
  "parse_forge_output example_text = example_csv
   \<and> (list_all (\<lambda>l. \<not> spec_keeps l \<and> strip l \<noteq> header) (split_nl (strip t))
        \<longrightarrow> parse_forge_output t = [])
   \<and> (parse_forge_output t = []) =
       list_all
         (\<lambda>l. \<not> (CHR '','' \<in> set l \<and> isdigit (replace_del CHR '' '' (replace_del CHR '','' l)))
              \<and> strip l \<noteq> header)
         (split_nl (strip t))"
proof (intro conjI impI)
  show "parse_forge_output example_text = example_csv"
    by code_simp
next
  assume a: "list_all (\<lambda>l. \<not> spec_keeps l \<and> strip l \<noteq> header) (split_nl (strip t))"
  have "\<not> kept l" if "l \<in> set (split_nl (strip t))" for l
  proof -
    from a that have "\<not> spec_keeps l" and "strip l \<noteq> header"
      by (simp_all add: list_all_iff)
    then show ?thesis
      by (auto simp: kept_def numeric_line_def header_line_def spec_keeps_def)
  qed
  then have "filter kept (split_nl (strip t)) = []"
    by (simp add: filter_empty_conv)
  then show "parse_forge_output t = []"
    by (simp add: parse_forge_output_empty)
next
  show "(parse_forge_output t = []) =
       list_all
         (\<lambda>l. \<not> (CHR '','' \<in> set l \<and> isdigit (replace_del CHR '' '' (replace_del CHR '','' l)))
              \<and> strip l \<noteq> header)
         (split_nl (strip t))"
    by (auto simp: parse_forge_output_empty filter_empty_conv list_all_iff kept_def
          numeric_line_def header_line_def)
qed

theorem extractor_example_witness:
  "list_all (\<lambda>l. \<not> spec_keeps l \<and> strip l \<noteq> header)
     (split_nl (strip (''hello'' @ [newline] @ ''1.5,2'')))
   \<and> parse_forge_output (''hello'' @ [newline] @ ''1.5,2'') = []"
proof -
  have h: "list_all (\<lambda>l. \<not> spec_keeps l \<and> strip l \<noteq> header)
             (split_nl (strip (''hello'' @ [newline] @ ''1.5,2'')))"
    by code_simp
  show ?thesis
    using h extractor_example [of "''hello'' @ [newline] @ ''1.5,2''"] by blast
qed

end
